theory Spec2Isabelle
  imports Complex_Main "HOL-Library.Multiset" "HOL-Library.List_Lexorder" "HOL-Library.Char_ord"
begin

section \<open>Strings of the host language\<close>

text \<open>
  The extension is TypeScript. A JavaScript string is a sequence of code units; it is
  modelled as a \<^typ>\<open>string\<close>, one \<^typ>\<open>char\<close> per code unit, so that
  \<open>length\<close> is \<^verbatim>\<open>.length\<close>. Only code units below 256 can be written this way;
  nothing below depends on the value of a code unit other than the separators
  \<^verbatim>\<open>_\<close>, \<^verbatim>\<open>/\<close>, \<^verbatim>\<open>:\<close>, the line feed and white space.
\<close>

text \<open>\<^verbatim>\<open>s.split(sep)\<close> for a separator of one code unit: never the empty array.\<close>

fun split_on :: "char \<Rightarrow> string \<Rightarrow> string list" where
  "split_on sep [] = [[]]"
| "split_on sep (c # cs) =
     (if c = sep then [] # split_on sep cs
      else (case split_on sep cs of
              [] \<Rightarrow> [[c]]
            | p # ps \<Rightarrow> (c # p) # ps))"

text \<open>\<^verbatim>\<open>s.slice(b, e)\<close> and \<^verbatim>\<open>s.slice(b)\<close> for indices that are not negative.\<close>

definition slice :: "nat \<Rightarrow> nat \<Rightarrow> string \<Rightarrow> string" where
  "slice b e s = take (e - b) (drop b s)"

definition slice_from :: "nat \<Rightarrow> string \<Rightarrow> string" where
  "slice_from b s = drop b s"

text \<open>\<^verbatim>\<open>arr.pop()\<close> read for its result only: \<open>None\<close> is \<^verbatim>\<open>undefined\<close>.\<close>

definition pop :: "'a list \<Rightarrow> 'a option" where
  "pop xs = (case xs of [] \<Rightarrow> None | _ \<Rightarrow> Some (last xs))"

text \<open>
  White space that \<^verbatim>\<open>trim()\<close> removes, among the code units below 256: tab, line
  feed, vertical tab, form feed, carriage return, space and the no-break space.
\<close>

definition is_space :: "char \<Rightarrow> bool" where
  "is_space c = (of_char c \<in> {9, 10, 11, 12, 13, 32, 160 :: nat})"

definition trim :: "string \<Rightarrow> string" where
  "trim s = rev (dropWhile is_space (rev (dropWhile is_space s)))"

section \<open>Values read from a log line\<close>

text \<open>
  A property of a parsed object is \<^verbatim>\<open>undefined\<close> (key absent), \<^verbatim>\<open>null\<close>, or a
  value. The casts of \<^verbatim>\<open>normaliseTrace\<close> (\<^verbatim>\<open>raw['function'] as string\<close>) are
  unchecked; the model covers the objects whose properties have the asserted types.
  Line numbers are integers; timestamps and durations are rational numbers.
\<close>

datatype 'a js = JsUndefined | JsNull | Js 'a

text \<open>\<^verbatim>\<open>x ?? null\<close>\<close>

definition nullish :: "'a js \<Rightarrow> 'a option" where
  "nullish x = (case x of Js v \<Rightarrow> Some v | _ \<Rightarrow> None)"

text \<open>\<^verbatim>\<open>x ?? d\<close>\<close>

definition nullish_or :: "'a js \<Rightarrow> 'a \<Rightarrow> 'a" where
  "nullish_or x d = (case x of Js v \<Rightarrow> v | _ \<Rightarrow> d)"

text \<open>Truthiness of a string or null: the empty string and null are falsy.\<close>

definition truthy :: "string option \<Rightarrow> bool" where
  "truthy x = (case x of None \<Rightarrow> False | Some s \<Rightarrow> s \<noteq> [])"

datatype json =
    JNull
  | JBool bool
  | JNum rat
  | JStr string
  | JArr "json list"
  | JObj "(string \<times> json) list"

text \<open>The \<^verbatim>\<open>error\<close> property: a structured object or, in old logs, a plain string.\<close>

datatype trace_error =
    ErrorObj (err_type: string) (err_message: string) (err_traceback: string)
  | ErrorStr string

record RawTrace =
  r_call_id :: "string js"
  r_function :: "string js"
  r_op_name :: "string js"
  r_wandb_url :: "string js"
  r_source_file :: "string js"
  r_source_line_start :: "int js"
  r_source_line_end :: "int js"
  r_timestamp_start :: "rat js"
  r_duration_s :: "rat js"
  r_inputs :: "json js"
  r_output :: "json js"
  r_error :: "trace_error js"
  r_git_repo_root :: "string js"
  r_git_commit :: "string js"
  r_git_dirty :: "bool js"
  r_git_snapshot_sha :: "string js"

text \<open>
  \<^verbatim>\<open>interface TraceRecord\<close>. The fields \<^verbatim>\<open>function\<close> and \<^verbatim>\<open>output\<close> are \<open>function_name\<close> and
  \<open>output_value\<close> here.
  \<open>call_id\<close> and \<open>timestamp_start\<close> are copied without a default, so they keep what
  the line had, \<^verbatim>\<open>undefined\<close> included.
\<close>

record TraceRecord =
  call_id :: "string js"
  function_name :: string
  op_name :: "string option"
  wandb_url :: "string option"
  source_file :: "string option"
  source_line_start :: "int option"
  source_line_end :: "int option"
  timestamp_start :: "rat js"
  duration_s :: rat
  inputs :: json
  output_value :: json
  error :: "trace_error option"
  git_repo_root :: "string option"
  git_commit :: "string option"
  git_dirty :: bool
  git_snapshot_sha :: "string option"

section \<open>Utility functions\<close>

definition parseRunLabel :: "string \<Rightarrow> string" where
  "parseRunLabel stem =
     (let parts = split_on CHR ''_'' stem in
      if length parts \<ge> 2 then
        (let date = parts ! 0; timePart = parts ! 1 in
         if length date = 8 \<and> length timePart = 6 then
           slice 0 4 date @ ''-'' @ slice 4 6 date @ ''-'' @ slice_from 6 date @ '' '' @
           slice 0 2 timePart @ '':'' @ slice 2 4 timePart @ '':'' @ slice_from 4 timePart
         else stem)
      else stem)"

text \<open>
  \<^verbatim>\<open>opName.split('/').pop()?.split(':')[0] ?? opName\<close>: the fallback to \<open>opName\<close> is
  taken when \<^verbatim>\<open>pop()\<close> or the index \<^verbatim>\<open>[0]\<close> gives \<^verbatim>\<open>undefined\<close>.
\<close>

definition fnName_of_opName :: "string \<Rightarrow> string" where
  "fnName_of_opName opName =
     (case pop (split_on CHR ''/'' opName) of
        None \<Rightarrow> opName
      | Some seg \<Rightarrow> (case split_on CHR '':'' seg of [] \<Rightarrow> opName | x # _ \<Rightarrow> x))"

definition normaliseTrace :: "RawTrace \<Rightarrow> TraceRecord" where
  "normaliseTrace raw =
     (let fnName0 = nullish (r_function raw);
          fnName = (if \<not> truthy fnName0 \<and> truthy (nullish (r_op_name raw))
                    then (case r_op_name raw of
                            Js opName \<Rightarrow> Some (fnName_of_opName opName)
                          | _ \<Rightarrow> fnName0)
                    else fnName0)
      in \<lparr> call_id = r_call_id raw,
           function_name = (case fnName of None \<Rightarrow> ''(unknown)'' | Some s \<Rightarrow> s),
           op_name = nullish (r_op_name raw),
           wandb_url = nullish (r_wandb_url raw),
           source_file = nullish (r_source_file raw),
           source_line_start = nullish (r_source_line_start raw),
           source_line_end = nullish (r_source_line_end raw),
           timestamp_start = r_timestamp_start raw,
           duration_s = nullish_or (r_duration_s raw) 0,
           inputs = nullish_or (r_inputs raw) (JObj []),
           output_value = nullish_or (r_output raw) JNull,
           error = nullish (r_error raw),
           git_repo_root = nullish (r_git_repo_root raw),
           git_commit = nullish (r_git_commit raw),
           git_dirty = nullish_or (r_git_dirty raw) False,
           git_snapshot_sha = nullish (r_git_snapshot_sha raw) \<rparr>)"

text \<open>An object with no recognised key: every property is \<^verbatim>\<open>undefined\<close>.\<close>

definition empty_raw :: RawTrace where
  "empty_raw =
     \<lparr> r_call_id = JsUndefined, r_function = JsUndefined, r_op_name = JsUndefined,
       r_wandb_url = JsUndefined, r_source_file = JsUndefined,
       r_source_line_start = JsUndefined, r_source_line_end = JsUndefined,
       r_timestamp_start = JsUndefined, r_duration_s = JsUndefined,
       r_inputs = JsUndefined, r_output = JsUndefined, r_error = JsUndefined,
       r_git_repo_root = JsUndefined, r_git_commit = JsUndefined,
       r_git_dirty = JsUndefined, r_git_snapshot_sha = JsUndefined \<rparr>"

section \<open>Loading a run\<close>

text \<open>
  The file system and \<^verbatim>\<open>JSON.parse\<close> are not part of the extension; they are
  parameters. A path is missing (\<^verbatim>\<open>existsSync\<close> is false), exists but cannot be read
  (\<^verbatim>\<open>readFileSync\<close> throws), or has a content.
\<close>

datatype file_state = Missing | Unreadable | Content string

text \<open>
  What \<^verbatim>\<open>JSON.parse\<close> gives for a trimmed line: \<open>None\<close> when it throws, the value
  \<^verbatim>\<open>null\<close>, or a value whose properties can be read (seen through the casts of
  \<^verbatim>\<open>normaliseTrace\<close>). Reading a property of \<^verbatim>\<open>null\<close> throws, so
  \<^verbatim>\<open>normaliseTrace(null)\<close> fails inside the loader's \<^verbatim>\<open>try\<close>.
\<close>

datatype parsed = ParsedNull | ParsedObject RawTrace

fun push_lines ::
  "(string \<Rightarrow> parsed option) \<Rightarrow> string list \<Rightarrow> TraceRecord list \<Rightarrow> TraceRecord list" where
  "push_lines parse [] traces = traces"
| "push_lines parse (line # rest) traces =
     (let trimmed = trim line in
      if trimmed = [] then push_lines parse rest traces
      else (case parse trimmed of
              None \<Rightarrow> push_lines parse rest traces
            | Some ParsedNull \<Rightarrow> push_lines parse rest traces
            | Some (ParsedObject raw) \<Rightarrow> push_lines parse rest (traces @ [normaliseTrace raw])))"

text \<open>\<^verbatim>\<open>a.timestamp_start || 0\<close>: the sort key.\<close>

definition sort_ts :: "TraceRecord \<Rightarrow> rat" where
  "sort_ts a = (case timestamp_start a of Js x \<Rightarrow> (if x = 0 then 0 else x) | _ \<Rightarrow> 0)"

text \<open>
  \<^verbatim>\<open>traces.sort((a, b) => key(a) - key(b))\<close>: \<^verbatim>\<open>Array.prototype.sort\<close> is a stable
  sort, and the sign of the difference is the order of the keys, so the result is the
  stable sort by key.
\<close>

definition loadTracesFromFile ::
  "(string \<Rightarrow> parsed option) \<Rightarrow> (string \<Rightarrow> file_state) \<Rightarrow> string \<Rightarrow> TraceRecord list" where
  "loadTracesFromFile parse fs filePath =
     (case fs filePath of
        Missing \<Rightarrow> []
      | Unreadable \<Rightarrow> []
      | Content content \<Rightarrow>
          sort_key sort_ts (push_lines parse (split_on (CHR 0x0A) content) []))"

section \<open>The trace store and its environment\<close>

record TraceStore =
  activeRunId :: "string option"
  runTraces :: "string \<rightharpoonup> TraceRecord list"
  selectedCallId :: "string js"
  focusedFn :: "string option"
  suppressCursorFilter :: bool
  highlightActive :: bool

text \<open>
  What the handlers read from outside: the result of \<^verbatim>\<open>getRunsDir()\<close>, the listing
  \<^verbatim>\<open>fs.readdirSync\<close> (\<open>None\<close> when it throws), the files, \<^verbatim>\<open>JSON.parse\<close>,
  \<^verbatim>\<open>path.join\<close> and \<^verbatim>\<open>path.basename\<close>.
\<close>

record Env =
  runsDir :: "string option"
  readdirSync :: "string \<Rightarrow> string list option"
  fs_file :: "string \<Rightarrow> file_state"
  json_parse :: "string \<Rightarrow> parsed option"
  path_join :: "string \<Rightarrow> string \<Rightarrow> string"
  path_basename :: "string \<Rightarrow> string \<Rightarrow> string"

definition endsWith :: "string \<Rightarrow> string \<Rightarrow> bool" where
  "endsWith f suffix = (length suffix \<le> length f \<and> drop (length f - length suffix) f = suffix)"

text \<open>\<^verbatim>\<open>f.replace(/\.jsonl$/, '')\<close>\<close>

definition strip_jsonl :: "string \<Rightarrow> string" where
  "strip_jsonl f = (if endsWith f ''.jsonl'' then take (length f - 6) f else f)"

text \<open>
  \<^verbatim>\<open>TraceTreeProvider.refresh\<close>. The default \<^verbatim>\<open>sort()\<close> orders strings by their
  code units, which is the lexicographic order of \<^typ>\<open>string\<close>. Firing the change
  event does not write the store.
\<close>

definition refresh :: "Env \<Rightarrow> TraceStore \<Rightarrow> TraceStore" where
  "refresh env store =
     (case runsDir env of
        None \<Rightarrow> store
      | Some dir \<Rightarrow>
          if dir = [] then store
          else (case readdirSync env dir of
                  None \<Rightarrow> store
                | Some names \<Rightarrow>
                    (let files = rev (sort (filter (\<lambda>f. endsWith f ''.jsonl'') names)) in
                     if length files > 0 \<and> activeRunId store = None
                     then store\<lparr>activeRunId := Some (strip_jsonl (files ! 0))\<rparr>
                     else store)))"

section \<open>Projections\<close>

record TraceCallItem =
  trace :: TraceRecord
  runId :: string
  selected :: bool

text \<open>\<^verbatim>\<open>AllTracesProvider.getChildren\<close>: the flat list.\<close>

definition getChildren :: "TraceStore \<Rightarrow> TraceCallItem list" where
  "getChildren store =
     (case activeRunId store of
        None \<Rightarrow> []
      | Some active \<Rightarrow>
          if active = [] then []
          else
            (let traces0 = (case runTraces store active of None \<Rightarrow> [] | Some ts \<Rightarrow> ts);
                 traces = (if truthy (focusedFn store)
                           then filter (\<lambda>t. Some (function_name t) = focusedFn store) traces0
                           else traces0)
             in map (\<lambda>t. \<lparr> trace = t, runId = active,
                             selected = (call_id t = selectedCallId store) \<rparr>) traces))"

text \<open>
  \<^verbatim>\<open>null - 2\<close> is \<^verbatim>\<open>-2\<close>: in arithmetic \<^verbatim>\<open>null\<close> counts as 0. The non-null
  assertions \<^verbatim>\<open>t.source_line_end!\<close> are erased by the compiler.
\<close>

definition to_number :: "int option \<Rightarrow> int" where
  "to_number x = (case x of None \<Rightarrow> 0 | Some n \<Rightarrow> n)"

text \<open>
  The predicate of \<^verbatim>\<open>provideHover\<close> (\<^verbatim>\<open>allTraces.filter\<close>) and of the selection
  handler (\<^verbatim>\<open>traces.find\<close>); the two arrow functions are the same text.
\<close>

definition matches_line :: "string \<Rightarrow> int \<Rightarrow> TraceRecord \<Rightarrow> bool" where
  "matches_line filePath cursorLine t =
     (source_file t = Some filePath \<and>
      source_line_start t \<noteq> None \<and>
      source_line_end t \<noteq> None \<and>
      cursorLine \<ge> max 0 (to_number (source_line_start t) - 2) \<and>
      cursorLine \<le> to_number (source_line_end t) - 1)"

text \<open>The records of the active run, as both handlers read them.\<close>

definition activeTraces :: "TraceStore \<Rightarrow> TraceRecord list" where
  "activeTraces store =
     (case activeRunId store of
        None \<Rightarrow> []
      | Some active \<Rightarrow> (case runTraces store active of None \<Rightarrow> [] | Some ts \<Rightarrow> ts))"

definition hover_matches :: "TraceStore \<Rightarrow> string \<Rightarrow> int \<Rightarrow> TraceRecord list" where
  "hover_matches store filePath cursorLine =
     (if \<not> truthy (activeRunId store) then []
      else filter (matches_line filePath cursorLine) (activeTraces store))"

definition cursor_hit :: "TraceStore \<Rightarrow> string \<Rightarrow> int \<Rightarrow> TraceRecord option" where
  "cursor_hit store filePath cursorLine =
     find (matches_line filePath cursorLine) (activeTraces store)"

text \<open>
  The handler of \<^verbatim>\<open>onDidChangeTextEditorSelection\<close>, for what it writes to the store:
  nothing without an active run; the suppress flag is consumed by the first event after
  a selection; else the focus follows the function of the first record at the cursor.
\<close>

definition onDidChangeTextEditorSelection :: "TraceStore \<Rightarrow> string \<Rightarrow> int \<Rightarrow> TraceStore" where
  "onDidChangeTextEditorSelection store filePath cursorLine =
     (if \<not> truthy (activeRunId store) then store
      else if suppressCursorFilter store then store\<lparr>suppressCursorFilter := False\<rparr>
      else
        (let hit = cursor_hit store filePath cursorLine;
             fnName = (case hit of Some t \<Rightarrow> Some (function_name t) | None \<Rightarrow> None)
         in if fnName \<noteq> focusedFn store then store\<lparr>focusedFn := fnName\<rparr> else store))"

section \<open>Editor ranges and decorations\<close>

text \<open>
  \<^verbatim>\<open>vscode.Range\<close> belongs to the editor, not to the extension, so the projections take
  its constructor as a parameter \<open>mkRange\<close>. \<open>vscode_Range\<close> is the constructor as the
  editor implements it: a position with a negative line or character is rejected with an
  illegal-argument error, and the two ends are put in order.
\<close>

datatype error = IllegalArgument

record Range =
  start_line :: int
  start_character :: int
  end_line :: int
  end_character :: int

definition vscode_Range :: "int \<Rightarrow> int \<Rightarrow> int \<Rightarrow> int \<Rightarrow> error + Range" where
  "vscode_Range startLine startCharacter endLine endCharacter =
     (if startLine < 0 \<or> startCharacter < 0 \<or> endLine < 0 \<or> endCharacter < 0
      then Inl IllegalArgument
      else if startLine < endLine \<or> (startLine = endLine \<and> startCharacter \<le> endCharacter)
      then Inr \<lparr> start_line = startLine, start_character = startCharacter,
                 end_line = endLine, end_character = endCharacter \<rparr>
      else Inr \<lparr> start_line = endLine, start_character = endCharacter,
                 end_line = startLine, end_character = startCharacter \<rparr>)"

text \<open>The \<^verbatim>\<open>for\<close> loop of \<^verbatim>\<open>applyToEditor\<close> that collects the gutter ranges.\<close>

fun gutter_loop ::
  "(int \<Rightarrow> int \<Rightarrow> int \<Rightarrow> int \<Rightarrow> error + Range) \<Rightarrow> TraceRecord list \<Rightarrow> string set \<Rightarrow>
   Range list \<Rightarrow> error + Range list" where
  "gutter_loop mkRange [] gutterSeen gutterRanges = Inr gutterRanges"
| "gutter_loop mkRange (t # ts) gutterSeen gutterRanges =
     (if function_name t \<notin> gutterSeen then
        (let decoratorLine = max 0 (to_number (source_line_start t) - 2) in
         case mkRange decoratorLine 0 decoratorLine 0 of
           Inl e \<Rightarrow> Inl e
         | Inr r \<Rightarrow>
             gutter_loop mkRange ts (insert (function_name t) gutterSeen) (gutterRanges @ [r]))
      else gutter_loop mkRange ts gutterSeen gutterRanges)"

text \<open>\<^verbatim>\<open>highlightTraces.map(t => new vscode.Range(startLine, 0, endLine, 0))\<close>\<close>

fun highlight_map ::
  "(int \<Rightarrow> int \<Rightarrow> int \<Rightarrow> int \<Rightarrow> error + Range) \<Rightarrow> TraceRecord list \<Rightarrow> error + Range list" where
  "highlight_map mkRange [] = Inr []"
| "highlight_map mkRange (t # ts) =
     (let startLine = max 0 (to_number (source_line_start t) - 2);
          endLine = to_number (source_line_end t) - 1 in
      case mkRange startLine 0 endLine 0 of
        Inl e \<Rightarrow> Inl e
      | Inr r \<Rightarrow> (case highlight_map mkRange ts of Inl e \<Rightarrow> Inl e | Inr rs \<Rightarrow> Inr (r # rs)))"

text \<open>
  \<^verbatim>\<open>DecorationManager.applyToEditor\<close> for an editor on the document \<open>filePath\<close>: the
  highlight ranges and the gutter ranges it hands to \<^verbatim>\<open>setDecorations\<close>, or the error
  that leaves it before it does.
\<close>

definition applyToEditor ::
  "(int \<Rightarrow> int \<Rightarrow> int \<Rightarrow> int \<Rightarrow> error + Range) \<Rightarrow> TraceStore \<Rightarrow> string \<Rightarrow>
   error + (Range list \<times> Range list)" where
  "applyToEditor mkRange store filePath =
     (if \<not> truthy (activeRunId store) \<or> \<not> highlightActive store then Inr ([], [])
      else
        (let allTraces = activeTraces store;
             fileTraces = filter (\<lambda>t. source_file t = Some filePath \<and>
                                       source_line_start t \<noteq> None) allTraces
         in case gutter_loop mkRange fileTraces {} [] of
              Inl e \<Rightarrow> Inl e
            | Inr gutterRanges \<Rightarrow>
                (let highlightTraces =
                       (if truthy (focusedFn store)
                        then filter (\<lambda>t. Some (function_name t) = focusedFn store) fileTraces
                        else if truthy (nullish (selectedCallId store))
                        then (let selected = filter (\<lambda>t. call_id t = selectedCallId store)
                                               fileTraces
                              in if length selected > 0 then selected else fileTraces)
                        else fileTraces)
                 in case highlight_map mkRange highlightTraces of
                      Inl e \<Rightarrow> Inl e
                    | Inr highlightRanges \<Rightarrow> Inr (highlightRanges, gutterRanges))))"

text \<open>
  The editors on screen, each with the document it shows, and the highlight and gutter
  decorations every editor carries.
\<close>

record Ui =
  visibleTextEditors :: "(nat \<times> string) list"
  decorations :: "nat \<Rightarrow> Range list \<times> Range list"

definition clearAll :: "Ui \<Rightarrow> Ui" where
  "clearAll ui =
     ui\<lparr>decorations :=
          (\<lambda>editor. if editor \<in> fst ` set (visibleTextEditors ui) then ([], [])
                     else decorations ui editor)\<rparr>"

section \<open>Hover content\<close>

text \<open>
  \<^verbatim>\<open>JSON.stringify(v, null, 2)\<close> is the parameter \<open>stringify\<close>. Of the markdown of
  \<^verbatim>\<open>provideHover\<close> the model keeps, for each matching call, the texts put between the
  fixed headings: the capped inputs, the error or the capped output, and the link.
\<close>

definition cappedInputs :: "(json \<Rightarrow> string) \<Rightarrow> TraceRecord \<Rightarrow> string" where
  "cappedInputs stringify t =
     (let inputsJson = stringify (inputs t) in
      if length inputsJson > 1000 then slice 0 1000 inputsJson @ ''...'' else inputsJson)"

definition cappedOutput :: "(json \<Rightarrow> string) \<Rightarrow> TraceRecord \<Rightarrow> string" where
  "cappedOutput stringify t =
     (let outputStr = stringify (output_value t) in
      if length outputStr > 1000 then slice 0 1000 outputStr @ ''...'' else outputStr)"

datatype hover_body = HoverError string | HoverOutput string

record HoverCall =
  hover_inputs :: string
  hover_body :: hover_body
  hover_link :: "string option"

text \<open>Truthiness of \<^verbatim>\<open>t.error\<close>: null and the empty string are falsy.\<close>

definition error_truthy :: "trace_error option \<Rightarrow> bool" where
  "error_truthy e =
     (case e of None \<Rightarrow> False | Some (ErrorStr s) \<Rightarrow> s \<noteq> [] | Some (ErrorObj _ _ _) \<Rightarrow> True)"

definition errStr :: "trace_error option \<Rightarrow> string" where
  "errStr e =
     (case e of
        Some (ErrorStr s) \<Rightarrow> s
      | Some (ErrorObj ty msg _) \<Rightarrow> ty @ '': '' @ msg
      | None \<Rightarrow> [])"

definition hover_call :: "(json \<Rightarrow> string) \<Rightarrow> TraceRecord \<Rightarrow> HoverCall" where
  "hover_call stringify t =
     \<lparr> hover_inputs = cappedInputs stringify t,
       hover_body = (if error_truthy (error t) then HoverError (errStr (error t))
                     else HoverOutput (cappedOutput stringify t)),
       hover_link = (if truthy (wandb_url t) then wandb_url t else None) \<rparr>"

text \<open>
  \<^verbatim>\<open>provideHover\<close>: nothing without an active run or a match; else the name of the
  first match, one entry per match in stored order, and the range of the first match.
\<close>

definition provideHover ::
  "(json \<Rightarrow> string) \<Rightarrow> (int \<Rightarrow> int \<Rightarrow> int \<Rightarrow> int \<Rightarrow> error + Range) \<Rightarrow> TraceStore \<Rightarrow> string \<Rightarrow> int \<Rightarrow>
   error + (string \<times> HoverCall list \<times> Range) option" where
  "provideHover stringify mkRange store filePath cursorLine =
     (case hover_matches store filePath cursorLine of
        [] \<Rightarrow> Inr None
      | firstMatch # others \<Rightarrow>
          (case mkRange (max 0 (to_number (source_line_start firstMatch) - 2)) 0
                        (to_number (source_line_end firstMatch) - 1) 0 of
             Inl e \<Rightarrow> Inl e
           | Inr hoverRange \<Rightarrow>
               Inr (Some (function_name firstMatch,
                          map (hover_call stringify) (firstMatch # others),
                          hoverRange))))"

section \<open>Event handlers\<close>

text \<open>
  The command \<^verbatim>\<open>cdweave.selectTrace\<close>, for what it writes to the store. The rest of the
  handler (detail view, opening the document, decorations) does not write the store.
\<close>

definition selectTraceCmd :: "Env \<Rightarrow> TraceStore \<Rightarrow> TraceCallItem \<Rightarrow> TraceStore" where
  "selectTraceCmd env store item =
     (let store1 = store\<lparr> activeRunId := Some (runId item),
                          selectedCallId := call_id (trace item),
                          focusedFn := Some (function_name (trace item)),
                          suppressCursorFilter := True,
                          highlightActive := True \<rparr>
      in case runsDir env of
           None \<Rightarrow> store1
         | Some dir \<Rightarrow>
             if dir \<noteq> [] \<and> runTraces store1 (runId item) = None
             then store1\<lparr> runTraces := (runTraces store1)
                    (runId item \<mapsto>
                       loadTracesFromFile (json_parse env) (fs_file env)
                         (path_join env dir (runId item @ ''.jsonl''))) \<rparr>
             else store1)"

text \<open>
  The handler of \<^verbatim>\<open>watcher.onDidDelete\<close>; \<^verbatim>\<open>allTracesProvider.refresh()\<close> empties
  the provider's own memo and fires an event, and writes neither store nor decorations.
\<close>

definition onDidDelete :: "Env \<Rightarrow> TraceStore \<times> Ui \<Rightarrow> string \<Rightarrow> TraceStore \<times> Ui" where
  "onDidDelete env state fsPath =
     (let store = fst state; ui = snd state;
          deleted = path_basename env fsPath ''.jsonl'';
          store1 = store\<lparr> runTraces := (runTraces store)(deleted := None) \<rparr>
      in if activeRunId store1 = Some deleted
         then (refresh env (store1\<lparr> activeRunId := None, selectedCallId := JsNull \<rparr>),
               clearAll ui)
         else (refresh env store1, ui))"

section \<open>The specification's own words\<close>

text \<open>
  The pattern of claim C8, \<^verbatim>\<open><8 digits>_<6 digits>\<close> followed by any suffix, written
  from the specification and not from the code.
\<close>

definition is_digit :: "char \<Rightarrow> bool" where
  "is_digit c = (CHR ''0'' \<le> c \<and> c \<le> CHR ''9'')"

definition spec_run_pattern :: "string \<Rightarrow> bool" where
  "spec_run_pattern stem =
     (length stem \<ge> 15 \<and> list_all is_digit (take 8 stem) \<and> stem ! 8 = CHR ''_'' \<and>
      list_all is_digit (take 6 (drop 9 stem)))"

text \<open>
  The function name as claim C2 words it: the \<^verbatim>\<open>function\<close> field when present; else,
  when \<^verbatim>\<open>op_name\<close> is present, its last \<^verbatim>\<open>/\<close>-separated segment up to the first
  \<^verbatim>\<open>:\<close>; else \<^verbatim>\<open>(unknown)\<close>.
\<close>

definition spec_function :: "RawTrace \<Rightarrow> string" where
  "spec_function raw =
     (case r_function raw of
        Js f \<Rightarrow> f
      | _ \<Rightarrow> (case r_op_name raw of
                Js opName \<Rightarrow>
                  takeWhile (\<lambda>c. c \<noteq> CHR '':'')
                    (rev (takeWhile (\<lambda>c. c \<noteq> CHR ''/'') (rev opName)))
              | _ \<Rightarrow> ''(unknown)''))"

text \<open>
  The lines of a log that give a record, in file order: each non-blank line is trimmed
  and parsed on its own, as section 4.2 words it, and it gives a record when it parses
  to a value other than \<^verbatim>\<open>null\<close>.
\<close>

definition object_lines :: "(string \<Rightarrow> parsed option) \<Rightarrow> string list \<Rightarrow> RawTrace list" where
  "object_lines parse ls =
     List.map_filter
       (\<lambda>l. if trim l = [] then None
            else (case parse (trim l) of Some (ParsedObject raw) \<Rightarrow> Some raw | _ \<Rightarrow> None))
       ls"

text \<open>The records of a file's lines, in file order, before any sorting.\<close>

definition file_records ::
  "(string \<Rightarrow> parsed option) \<Rightarrow> (string \<Rightarrow> file_state) \<Rightarrow> string \<Rightarrow> TraceRecord list" where
  "file_records parse fs filePath =
     (case fs filePath of
        Content content \<Rightarrow> map normaliseTrace (object_lines parse (split_on (CHR 0x0A) content))
      | _ \<Rightarrow> [])"

text \<open>
  The most recent run of the run directory, as section 4.3 words the auto-select-latest
  policy: the greatest name among the files with the log extension, the extension
  stripped; none when there is no directory, no listing or no such file.
\<close>

definition latest_run :: "Env \<Rightarrow> string option" where
  "latest_run env =
     (case runsDir env of
        None \<Rightarrow> None
      | Some dir \<Rightarrow>
          if dir = [] then None
          else (case readdirSync env dir of
                  None \<Rightarrow> None
                | Some names \<Rightarrow>
                    (let runs = filter (\<lambda>f. endsWith f ''.jsonl'') names in
                     if runs = [] then None else Some (strip_jsonl (Max (set runs))))))"

section \<open>Inputs for the examples\<close>

text \<open>
  An instance of \<^verbatim>\<open>JSON.parse\<close> for the examples: it parses three lines that are
  objects with the timestamps 1, 2 and 3 and the line \<^verbatim>\<open>null\<close>, and fails on every
  other text.
\<close>

definition example_parse :: "string \<Rightarrow> parsed option" where
  \<open>example_parse s =
     (if s = ''{"timestamp_start":1}''
      then Some (ParsedObject (empty_raw\<lparr>r_timestamp_start := Js 1\<rparr>))
      else if s = ''{"timestamp_start":2}''
      then Some (ParsedObject (empty_raw\<lparr>r_timestamp_start := Js 2\<rparr>))
      else if s = ''{"timestamp_start":3}''
      then Some (ParsedObject (empty_raw\<lparr>r_timestamp_start := Js 3\<rparr>))
      else if s = ''null'' then Some ParsedNull
      else None)\<close>



text \<open>
  An instance of \<^verbatim>\<open>JSON.stringify(v, null, 2)\<close> for the examples: the text of the
  example inputs, which has 1001 characters, of \<^verbatim>\<open>null\<close> and of the empty object.
\<close>

definition example_inputs :: json where
  "example_inputs = JObj [(''x'', JStr (replicate 988 (CHR ''a'')))]"

definition example_stringify :: "json \<Rightarrow> string" where
  \<open>example_stringify v =
     (if v = example_inputs
      then ''{'' @ [CHR 0x0A] @ ''  "x": "'' @ replicate 988 (CHR ''a'') @ ''"'' @ [CHR 0x0A] @ ''}''
      else if v = JNull then ''null''
      else ''{}'')\<close>

text \<open>Two calls of the same function \<^verbatim>\<open>f\<close>, in the file \<^verbatim>\<open>/w/app.py\<close>.\<close>

definition example_call1 :: TraceRecord where
  "example_call1 =
     normaliseTrace (empty_raw\<lparr> r_call_id := Js ''c1'', r_function := Js ''f'',
                               r_source_file := Js ''/w/app.py'',
                               r_source_line_start := Js 10, r_source_line_end := Js 12,
                               r_timestamp_start := Js 1,
                               r_inputs := Js example_inputs \<rparr>)"

definition example_call2 :: TraceRecord where
  "example_call2 =
     normaliseTrace (empty_raw\<lparr> r_call_id := Js ''c2'', r_function := Js ''f'',
                               r_source_file := Js ''/w/app.py'',
                               r_source_line_start := Js 10, r_source_line_end := Js 12,
                               r_timestamp_start := Js 2 \<rparr>)"

text \<open>A call logged with a start line and no end line.\<close>

definition example_partial :: TraceRecord where
  "example_partial =
     normaliseTrace (empty_raw\<lparr> r_call_id := Js ''c3'', r_function := Js ''g'',
                               r_source_file := Js ''/w/app.py'',
                               r_source_line_start := Js 10,
                               r_timestamp_start := Js 3 \<rparr>)"

text \<open>
  A workspace whose run directory lists two runs and a file that is not a log; the run
  \<^verbatim>\<open>a\<close> is in the store's cache and has no file (any more).
\<close>

definition example_env :: Env where
  "example_env =
     \<lparr> runsDir = Some ''/w/runs'',
       readdirSync = (\<lambda>dir. if dir = ''/w/runs''
                             then Some [''b.jsonl'', ''notes.txt'', ''c.jsonl''] else None),
       fs_file = (\<lambda>_. Missing),
       json_parse = example_parse,
       path_join = (\<lambda>a b. a @ ''/'' @ b),
       path_basename = (\<lambda>p ext. let b = last (split_on CHR ''/'' p) in
                                  if endsWith b ext then take (length b - length ext) b else b) \<rparr>"

definition example_store :: TraceStore where
  "example_store =
     \<lparr> activeRunId = Some ''a'',
       runTraces = [''a'' \<mapsto> [example_call1, example_call2]],
       selectedCallId = JsNull,
       focusedFn = None,
       suppressCursorFilter = False,
       highlightActive = True \<rparr>"

definition example_partial_store :: TraceStore where
  "example_partial_store =
     \<lparr> activeRunId = Some ''a'',
       runTraces = [''a'' \<mapsto> [example_partial]],
       selectedCallId = JsNull,
       focusedFn = None,
       suppressCursorFilter = False,
       highlightActive = True \<rparr>"

definition example_ui :: Ui where
  "example_ui =
     \<lparr> visibleTextEditors = [(0, ''/w/app.py''), (1, ''/w/lib.py'')],
       decorations = (\<lambda>_. ([\<lparr> start_line = 8, start_character = 0,
                                end_line = 11, end_character = 0 \<rparr>],
                             [\<lparr> start_line = 8, start_character = 0,
                                end_line = 8, end_character = 0 \<rparr>])) \<rparr>"

section \<open>Properties of the string functions\<close>

lemma split_on_not_Nil: "split_on sep s \<noteq> []"
  by (induction s) (auto split: list.splits)

lemma split_on_unfold:
  "split_on sep s =
     takeWhile (\<lambda>c. c \<noteq> sep) s #
       (case dropWhile (\<lambda>c. c \<noteq> sep) s of [] \<Rightarrow> [] | _ # r \<Rightarrow> split_on sep r)"
  by (induction s) (auto split: list.splits simp: split_on_not_Nil)

lemma split_on_no_sep: "sep \<notin> set s \<Longrightarrow> split_on sep s = [s]"
  by (induction s) auto

lemma split_on_append_sep: "split_on sep (xs @ sep # ys) = split_on sep xs @ split_on sep ys"
proof (induction xs)
  case Nil
  show ?case by simp
next
  case (Cons c xs)
  obtain p ps where "split_on sep xs = p # ps"
    using split_on_not_Nil[of sep xs] by (cases "split_on sep xs") auto
  with Cons show ?case by simp
qed

lemma rev_takeWhile_rev_all:
  assumes "sep \<notin> set s"
  shows "rev (takeWhile (\<lambda>c. c \<noteq> sep) (rev s)) = s"
proof -
  from assms have "\<forall>x\<in>set (rev s). x \<noteq> sep" by auto
  then have "takeWhile (\<lambda>c. c \<noteq> sep) (rev s) = rev s"
    by (rule takeWhile_eq_all_conv[THEN iffD2])
  then show ?thesis by (simp only: rev_rev_ident)
qed

lemma last_split_on: "last (split_on sep s) = rev (takeWhile (\<lambda>c. c \<noteq> sep) (rev s))"
proof (cases "sep \<in> set s")
  case False
  then show ?thesis by (simp add: split_on_no_sep rev_takeWhile_rev_all)
next
  case True
  then obtain xs ys where s: "s = xs @ sep # ys" and ys: "sep \<notin> set ys"
    by (auto dest: split_list_last)
  from ys have "takeWhile (\<lambda>c. c \<noteq> sep) (rev ys @ sep # rev xs) = rev ys"
    by (auto simp: takeWhile_append)
  with s ys show ?thesis
    by (simp add: split_on_append_sep split_on_no_sep)
qed

section \<open>Run labels\<close>

text \<open>
  Claim C8, as stated: a stem is rendered as \<^verbatim>\<open>YYYY-MM-DD HH:MM:SS\<close> exactly when it
  matches \<^verbatim>\<open><8 digits>_<6 digits>\<close>, and is shown verbatim otherwise. It fails:
  \<^verbatim>\<open>parseRunLabel\<close> tests two lengths and no digit, so a stem of letters that does not
  match the pattern is reformatted too.
\<close>

theorem parseRunLabel_letters_counterexample:
  "\<not> spec_run_pattern ''abcdefgh_ijklmn'' \<and>
   parseRunLabel ''abcdefgh_ijklmn'' = ''abcd-ef-gh ij:kl:mn'' \<and>
   parseRunLabel ''abcdefgh_ijklmn'' \<noteq> ''abcdefgh_ijklmn''"
  by (simp add: spec_run_pattern_def is_digit_def parseRunLabel_def slice_def slice_from_def)

text \<open>
  Claim C8, amended: the stem is rendered as a label exactly when the text before its
  first underscore has 8 characters and the text between its first underscore and the
  next one (or the end) has 6, whatever the characters are; the label is made of these
  two parts. Every other stem is shown verbatim. So \<^verbatim>\<open>20240115_143022\<close> renders as
  \<^verbatim>\<open>2024-01-15 14:30:22\<close>, with or without a suffix that starts with an underscore.
\<close>

theorem parseRunLabel_by_lengths:
  "parseRunLabel stem =
     (let date = takeWhile (\<lambda>c. c \<noteq> CHR ''_'') stem;
          rest = dropWhile (\<lambda>c. c \<noteq> CHR ''_'') stem;
          timePart = takeWhile (\<lambda>c. c \<noteq> CHR ''_'') (tl rest)
      in if rest \<noteq> [] \<and> length date = 8 \<and> length timePart = 6
         then take 4 date @ ''-'' @ take 2 (drop 4 date) @ ''-'' @ drop 6 date @ '' '' @
              take 2 timePart @ '':'' @ take 2 (drop 2 timePart) @ '':'' @ drop 4 timePart
         else stem) \<and>
   parseRunLabel ''20240115_143022'' = ''2024-01-15 14:30:22'' \<and>
   parseRunLabel ''20240115_143022_retry'' = ''2024-01-15 14:30:22''"
proof -
  have shape: "parseRunLabel stem =
     (let date = takeWhile (\<lambda>c. c \<noteq> CHR ''_'') stem;
          rest = dropWhile (\<lambda>c. c \<noteq> CHR ''_'') stem;
          timePart = takeWhile (\<lambda>c. c \<noteq> CHR ''_'') (tl rest)
      in if rest \<noteq> [] \<and> length date = 8 \<and> length timePart = 6
         then take 4 date @ ''-'' @ take 2 (drop 4 date) @ ''-'' @ drop 6 date @ '' '' @
              take 2 timePart @ '':'' @ take 2 (drop 2 timePart) @ '':'' @ drop 4 timePart
         else stem)"
  proof (cases "dropWhile (\<lambda>c. c \<noteq> CHR ''_'') stem")
    case Nil
    then have "split_on CHR ''_'' stem = [takeWhile (\<lambda>c. c \<noteq> CHR ''_'') stem]"
      by (subst split_on_unfold) (simp only: Nil list.simps)
    with Nil show ?thesis by (simp add: parseRunLabel_def)
  next
    case (Cons u r)
    then have "split_on CHR ''_'' stem =
        takeWhile (\<lambda>c. c \<noteq> CHR ''_'') stem # takeWhile (\<lambda>c. c \<noteq> CHR ''_'') r #
          (case dropWhile (\<lambda>c. c \<noteq> CHR ''_'') r of
             [] \<Rightarrow> [] | _ # r' \<Rightarrow> split_on CHR ''_'' r')"
      by (subst split_on_unfold, simp, subst split_on_unfold, simp)
    with Cons show ?thesis
      by (simp add: parseRunLabel_def slice_def slice_from_def Let_def)
  qed
  have ex1: "parseRunLabel ''20240115_143022'' = ''2024-01-15 14:30:22''"
    by (simp add: parseRunLabel_def slice_def slice_from_def)
  have ex2: "parseRunLabel ''20240115_143022_retry'' = ''2024-01-15 14:30:22''"
    by (simp add: parseRunLabel_def slice_def slice_from_def)
  from shape ex1 ex2 show ?thesis by (simp only: simp_thms)
qed

section \<open>Function names\<close>

lemma fnName_of_opName_eq:
  "fnName_of_opName opName =
     takeWhile (\<lambda>c. c \<noteq> CHR '':'') (rev (takeWhile (\<lambda>c. c \<noteq> CHR ''/'') (rev opName)))"
proof -
  have "pop (split_on CHR ''/'' opName) = Some (last (split_on CHR ''/'' opName))"
    using split_on_not_Nil[of "CHR ''/''" opName] by (simp add: pop_def split: list.splits)
  moreover have "\<And>seg. split_on CHR '':'' seg =
      takeWhile (\<lambda>c. c \<noteq> CHR '':'') seg #
        (case dropWhile (\<lambda>c. c \<noteq> CHR '':'') seg of
           [] \<Rightarrow> [] | _ # r \<Rightarrow> split_on CHR '':'' r)"
    by (rule split_on_unfold)
  ultimately show ?thesis
    by (simp add: fnName_of_opName_def last_split_on)
qed

text \<open>
  Claim C2, as stated: the normalised function is the raw \<^verbatim>\<open>function\<close> field when
  present, else the name derived from \<^verbatim>\<open>op_name\<close> when present, else
  \<^verbatim>\<open>(unknown)\<close>. It fails for a line whose \<^verbatim>\<open>function\<close> is the empty string and
  whose \<^verbatim>\<open>op_name\<close> is \<^verbatim>\<open>proj/op/compute_thing:abcd\<close>: the field is present, and
  the record's function is \<^verbatim>\<open>compute_thing\<close>, not the field.
\<close>

theorem normaliseTrace_empty_function_counterexample:
  "r_function (empty_raw\<lparr>r_function := Js [], r_op_name := Js ''proj/op/compute_thing:abcd''\<rparr>)
     = Js [] \<and>
   spec_function (empty_raw\<lparr>r_function := Js [], r_op_name := Js ''proj/op/compute_thing:abcd''\<rparr>)
     = [] \<and>
   function_name (normaliseTrace
      (empty_raw\<lparr>r_function := Js [], r_op_name := Js ''proj/op/compute_thing:abcd''\<rparr>))
     = ''compute_thing''"
  by (simp add: spec_function_def normaliseTrace_def empty_raw_def nullish_def truthy_def
        fnName_of_opName_def pop_def)

text \<open>
  Claim C2, amended: the normalised function is the raw \<^verbatim>\<open>function\<close> field when that
  is a non-empty string; else, when \<^verbatim>\<open>op_name\<close> is a non-empty string, the last
  \<^verbatim>\<open>/\<close>-separated segment of \<^verbatim>\<open>op_name\<close> up to its first \<^verbatim>\<open>:\<close>; else
  \<^verbatim>\<open>(unknown)\<close> when \<^verbatim>\<open>function\<close> is absent or null, and the empty string when
  \<^verbatim>\<open>function\<close> is the empty string.
\<close>

theorem normaliseTrace_function:
  "function_name (normaliseTrace raw) =
     (case r_function raw of
        Js f \<Rightarrow>
          if f \<noteq> [] then f
          else (case r_op_name raw of
                  Js opName \<Rightarrow>
                    if opName \<noteq> []
                    then takeWhile (\<lambda>c. c \<noteq> CHR '':'')
                           (rev (takeWhile (\<lambda>c. c \<noteq> CHR ''/'') (rev opName)))
                    else []
                | _ \<Rightarrow> [])
      | _ \<Rightarrow>
          (case r_op_name raw of
             Js opName \<Rightarrow>
               if opName \<noteq> []
               then takeWhile (\<lambda>c. c \<noteq> CHR '':'')
                      (rev (takeWhile (\<lambda>c. c \<noteq> CHR ''/'') (rev opName)))
               else ''(unknown)''
           | _ \<Rightarrow> ''(unknown)''))"
  by (simp add: normaliseTrace_def nullish_def truthy_def fnName_of_opName_eq Let_def
        split: js.splits)

text \<open>
  Claim C10, as stated: a raw \<^verbatim>\<open>function\<close> that is the empty string is treated as an
  absent one, so that without \<^verbatim>\<open>op_name\<close> the function is \<^verbatim>\<open>(unknown)\<close> and the
  empty string is not preserved. It fails: \<^verbatim>\<open>fnName ?? '(unknown)'\<close> replaces only
  \<^verbatim>\<open>null\<close> and \<^verbatim>\<open>undefined\<close>, so the empty string stays.
\<close>

theorem normaliseTrace_empty_function_kept_counterexample:
  "function_name (normaliseTrace (empty_raw\<lparr>r_function := Js []\<rparr>)) = [] \<and>
   function_name (normaliseTrace (empty_raw\<lparr>r_function := Js []\<rparr>)) \<noteq> ''(unknown)''"
  by (simp add: normaliseTrace_def empty_raw_def nullish_def truthy_def)

text \<open>
  Claim C10, amended: when the raw \<^verbatim>\<open>function\<close> is the empty string, null or absent,
  the function is derived from \<^verbatim>\<open>op_name\<close> if that is a non-empty string. Otherwise
  an empty \<^verbatim>\<open>function\<close> is preserved as the empty string, and a null or absent one
  becomes \<^verbatim>\<open>(unknown)\<close>.
\<close>

theorem normaliseTrace_falsy_function:
  "function_name (normaliseTrace (raw\<lparr>r_function := Js []\<rparr>)) =
     (case r_op_name raw of
        Js opName \<Rightarrow> if opName \<noteq> [] then fnName_of_opName opName else []
      | _ \<Rightarrow> []) \<and>
   function_name (normaliseTrace (raw\<lparr>r_function := JsNull\<rparr>)) =
     (case r_op_name raw of
        Js opName \<Rightarrow> if opName \<noteq> [] then fnName_of_opName opName else ''(unknown)''
      | _ \<Rightarrow> ''(unknown)'') \<and>
   function_name (normaliseTrace (raw\<lparr>r_function := JsUndefined\<rparr>)) =
     (case r_op_name raw of
        Js opName \<Rightarrow> if opName \<noteq> [] then fnName_of_opName opName else ''(unknown)''
      | _ \<Rightarrow> ''(unknown)'')"
  by (simp add: normaliseTrace_def nullish_def truthy_def Let_def split: js.splits)

section \<open>Line correlation\<close>

text \<open>
  Claim C1: a record matches a file and a line if and only if its \<^verbatim>\<open>source_file\<close> is
  the file, both line bounds are non-null, and the line is at least
  \<^verbatim>\<open>max(0, source_line_start - 2)\<close> and at most \<^verbatim>\<open>source_line_end - 1\<close>. A record
  with bounds 10 and 12 matches the lines 8, 9, 10, 11 and no other; a record that
  starts at line 1 matches from line 0 on, and no negative line. The hover keeps every
  matching record of the active run, the selection handler takes the first.
\<close>

theorem matches_line_rule:
  "(matches_line filePath cursorLine t \<longleftrightarrow>
      source_file t = Some filePath \<and>
      (\<exists>s e. source_line_start t = Some s \<and> source_line_end t = Some e \<and>
             cursorLine \<ge> max 0 (s - 2) \<and> cursorLine \<le> e - 1)) \<and>
   (matches_line filePath cursorLine
       (t\<lparr>source_file := Some filePath, source_line_start := Some 10,
          source_line_end := Some 12\<rparr>)
      \<longleftrightarrow> cursorLine \<in> {8, 9, 10, 11}) \<and>
   (matches_line filePath cursorLine
       (t\<lparr>source_file := Some filePath, source_line_start := Some 1,
          source_line_end := Some e\<rparr>)
      \<longleftrightarrow> 0 \<le> cursorLine \<and> cursorLine \<le> e - 1) \<and>
   hover_matches store filePath cursorLine =
     (if truthy (activeRunId store)
      then filter (matches_line filePath cursorLine) (activeTraces store) else []) \<and>
   cursor_hit store filePath cursorLine =
     find (matches_line filePath cursorLine) (activeTraces store)"
  by (auto simp: matches_line_def to_number_def hover_matches_def cursor_hit_def)

section \<open>The loader\<close>

lemma push_lines_eq:
  "push_lines parse ls traces = traces @ map normaliseTrace (object_lines parse ls)"
  by (induction ls arbitrary: traces)
     (auto simp: object_lines_def Let_def split: option.splits parsed.splits)



lemma load_eq: "loadTracesFromFile parse fs p = sort_key sort_ts (file_records parse fs p)"
  by (simp add: loadTracesFromFile_def file_records_def push_lines_eq split: file_state.splits)

text \<open>
  Claim C3: for every log file the loader's result is sorted by non-decreasing
  \<^verbatim>\<open>timestamp_start\<close>, a missing timestamp counting as 0; records with equal keys keep
  their file order; and the result holds the very records of the file's lines, so a
  missing timestamp stays missing in the record.
\<close>

theorem loadTracesFromFile_sorted_stable:
  "sorted (map sort_ts (loadTracesFromFile parse fs p)) \<and>
   (\<forall>k. filter (\<lambda>t. sort_ts t = k) (loadTracesFromFile parse fs p) =
        filter (\<lambda>t. sort_ts t = k) (file_records parse fs p)) \<and>
   mset (loadTracesFromFile parse fs p) = mset (file_records parse fs p) \<and>
   sort_ts t = (case timestamp_start t of Js x \<Rightarrow> x | _ \<Rightarrow> 0) \<and>
   timestamp_start (normaliseTrace raw) = r_timestamp_start raw"
proof -
  have "sorted (map sort_ts (loadTracesFromFile parse fs p))"
    by (simp add: load_eq)
  moreover have "\<forall>k. filter (\<lambda>t. sort_ts t = k) (loadTracesFromFile parse fs p) =
        filter (\<lambda>t. sort_ts t = k) (file_records parse fs p)"
    by (simp add: load_eq sort_key_stable)
  moreover have "mset (loadTracesFromFile parse fs p) = mset (file_records parse fs p)"
    by (simp add: load_eq)
  moreover have "sort_ts t = (case timestamp_start t of Js x \<Rightarrow> x | _ \<Rightarrow> 0)"
    by (simp add: sort_ts_def split: js.splits)
  moreover have "timestamp_start (normaliseTrace raw) = r_timestamp_start raw"
    by (simp add: normaliseTrace_def Let_def)
  ultimately show ?thesis by blast
qed




section \<open>Hover truncation\<close>

text \<open>
  Claim C7, as stated: a serialized inputs or output text of more than 1000 characters
  is rendered truncated, and the rendered text never exceeds 1001 characters. It fails:
  the marker that \<^verbatim>\<open>provideHover\<close> appends is the three characters \<^verbatim>\<open>...\<close>, so a
  text of 1001 characters is rendered in 1003.
\<close>

theorem cappedInputs_1003_counterexample:
  "length (example_stringify (inputs example_call1)) = 1001 \<and>
   length (cappedInputs example_stringify example_call1) = 1003 \<and>
   \<not> length (cappedInputs example_stringify example_call1) \<le> 1001"
proof -
  have i: "inputs example_call1 = example_inputs"
    by (simp add: example_call1_def normaliseTrace_def empty_raw_def nullish_or_def Let_def)
  have l: "length (example_stringify example_inputs) = 1001"
    by (simp add: example_stringify_def)
  then have "length (cappedInputs example_stringify example_call1) = 1003"
    by (simp add: cappedInputs_def i slice_def Let_def)
  with i l show ?thesis by simp
qed

text \<open>
  Claim C7, amended: a serialized inputs or output text of more than 1000 characters is
  rendered as its first 1000 characters followed by the one marker \<^verbatim>\<open>...\<close>, 1003
  characters in all; a text of at most 1000 characters is rendered as it is. The
  rendered text never exceeds 1003 characters.
\<close>

theorem capped_text_bound:
  "cappedInputs stringify t =
     (if length (stringify (inputs t)) > 1000
      then take 1000 (stringify (inputs t)) @ ''...'' else stringify (inputs t)) \<and>
   cappedOutput stringify t =
     (if length (stringify (output_value t)) > 1000
      then take 1000 (stringify (output_value t)) @ ''...'' else stringify (output_value t)) \<and>
   length (cappedInputs stringify t) =
     (if length (stringify (inputs t)) > 1000 then 1003 else length (stringify (inputs t))) \<and>
   length (cappedOutput stringify t) =
     (if length (stringify (output_value t)) > 1000 then 1003
      else length (stringify (output_value t))) \<and>
   length (cappedInputs stringify t) \<le> 1003 \<and>
   length (cappedOutput stringify t) \<le> 1003 \<and>
   hover_inputs (hover_call stringify t) = cappedInputs stringify t \<and>
   hover_body (hover_call stringify t) =
     (if error_truthy (error t) then HoverError (errStr (error t))
      else HoverOutput (cappedOutput stringify t))"
  by (simp add: cappedInputs_def cappedOutput_def slice_def Let_def hover_call_def)

section \<open>Selecting a call\<close>

lemma selectTraceCmd_fields:
  "activeRunId (selectTraceCmd env store item) = Some (runId item)"
  "selectedCallId (selectTraceCmd env store item) = call_id (trace item)"
  "focusedFn (selectTraceCmd env store item) = Some (function_name (trace item))"
  "suppressCursorFilter (selectTraceCmd env store item)"
  "highlightActive (selectTraceCmd env store item)"
  by (simp_all add: selectTraceCmd_def Let_def split: option.splits)

lemma selectTraceCmd_cache:
  "runTraces (selectTraceCmd env store item) (runId item) =
     (case runTraces store (runId item) of
        Some ts \<Rightarrow> Some ts
      | None \<Rightarrow>
          if truthy (runsDir env)
          then Some (loadTracesFromFile (json_parse env) (fs_file env)
                       (path_join env (the (runsDir env)) (runId item @ ''.jsonl'')))
          else None)"
  by (simp add: selectTraceCmd_def truthy_def Let_def split: option.splits)

lemma getChildren_after_select:
  "getChildren (selectTraceCmd env store item) =
     (if runId item = [] then []
      else map (\<lambda>t. \<lparr>trace = t, runId = runId item,
                       selected = (call_id t = call_id (trace item))\<rparr>)
             (if function_name (trace item) = []
              then (case runTraces (selectTraceCmd env store item) (runId item) of
                      None \<Rightarrow> [] | Some ts \<Rightarrow> ts)
              else filter (\<lambda>t. function_name t = function_name (trace item))
                     (case runTraces (selectTraceCmd env store item) (runId item) of
                        None \<Rightarrow> [] | Some ts \<Rightarrow> ts)))"
  by (simp add: getChildren_def selectTraceCmd_fields truthy_def Let_def)

text \<open>
  Claim C5, as stated: after a call is selected, the flat list's filtered output
  contains exactly that call. It fails when the run has another call of the same
  function: the list is filtered by function name, so it shows both calls.
\<close>

theorem selectTraceCmd_two_calls_counterexample:
  "getChildren (selectTraceCmd example_env example_store
                  \<lparr>trace = example_call1, runId = ''a'', selected = False\<rparr>)
     = [\<lparr>trace = example_call1, runId = ''a'', selected = True\<rparr>,
        \<lparr>trace = example_call2, runId = ''a'', selected = False\<rparr>] \<and>
   example_call2 \<noteq> example_call1"
  by (simp add: getChildren_def selectTraceCmd_def example_env_def example_store_def truthy_def
        example_call1_def example_call2_def normaliseTrace_def empty_raw_def nullish_def
        nullish_or_def Let_def)

text \<open>
  Claim C5, amended: after the handler, \<^verbatim>\<open>activeRunId\<close> is the call's run,
  \<^verbatim>\<open>selectedCallId\<close> the call's id, \<^verbatim>\<open>focusedFn\<close> the call's function, the
  suppress flag is set and highlighting is enabled; the run's records are the cached
  ones, or loaded if there were none and a run directory is known; and the flat list is
  made of the records of that run that have the call's function name (all of them when
  that name is empty), each marked selected when its id is the call's id. So the list
  contains the selected call whenever the call is among the run's records.
\<close>

theorem selectTraceCmd_postcondition:
  "(let store' = selectTraceCmd env store item;
        run = (case runTraces store' (runId item) of None \<Rightarrow> [] | Some ts \<Rightarrow> ts)
    in activeRunId store' = Some (runId item) \<and>
       selectedCallId store' = call_id (trace item) \<and>
       focusedFn store' = Some (function_name (trace item)) \<and>
       suppressCursorFilter store' \<and>
       highlightActive store' \<and>
       runTraces store' (runId item) =
         (case runTraces store (runId item) of
            Some ts \<Rightarrow> Some ts
          | None \<Rightarrow>
              if truthy (runsDir env)
              then Some (loadTracesFromFile (json_parse env) (fs_file env)
                           (path_join env (the (runsDir env)) (runId item @ ''.jsonl'')))
              else None) \<and>
       getChildren store' =
         (if runId item = [] then []
          else map (\<lambda>t. \<lparr>trace = t, runId = runId item,
                           selected = (call_id t = call_id (trace item))\<rparr>)
                 (if function_name (trace item) = [] then run
                  else filter (\<lambda>t. function_name t = function_name (trace item)) run)) \<and>
       (runId item \<noteq> [] \<and> trace item \<in> set run \<longrightarrow>
          \<lparr>trace = trace item, runId = runId item, selected = True\<rparr>
            \<in> set (getChildren store')))"
proof -
  let ?s = "selectTraceCmd env store item"
  let ?run = "case runTraces ?s (runId item) of None \<Rightarrow> [] | Some ts \<Rightarrow> ts"
  let ?f = "\<lambda>t. \<lparr>trace = t, runId = runId item,
                     selected = (call_id t = call_id (trace item))\<rparr>"
  let ?xs = "if function_name (trace item) = [] then ?run
             else filter (\<lambda>t. function_name t = function_name (trace item)) ?run"
  have mem: "runId item \<noteq> [] \<and> trace item \<in> set ?run \<longrightarrow>
          \<lparr>trace = trace item, runId = runId item, selected = True\<rparr> \<in> set (getChildren ?s)"
  proof (intro impI, elim conjE)
    assume r: "runId item \<noteq> []" and m: "trace item \<in> set ?run"
    have gc: "getChildren ?s = map ?f ?xs"
      using r by (simp only: getChildren_after_select if_False)
    have "trace item \<in> set ?xs"
      using m by simp
    then have "?f (trace item) \<in> set (map ?f ?xs)"
      by (simp only: set_map) (rule imageI)
    moreover have "?f (trace item) = \<lparr>trace = trace item, runId = runId item, selected = True\<rparr>"
      by simp
    ultimately show "\<lparr>trace = trace item, runId = runId item, selected = True\<rparr>
        \<in> set (getChildren ?s)"
      by (simp only: gc)
  qed
  show ?thesis
    unfolding Let_def
    by (intro conjI selectTraceCmd_fields selectTraceCmd_cache getChildren_after_select mem)
qed

text \<open>
  The postcondition at the first of the two example calls: the call is among the
  records of its run, and the flat list contains it, marked as selected.
\<close>

theorem selectTraceCmd_postcondition_witness:
  "runId \<lparr>trace = example_call1, runId = ''a'', selected = False\<rparr> \<noteq> [] \<and>
   trace \<lparr>trace = example_call1, runId = ''a'', selected = False\<rparr>
     \<in> set (case runTraces (selectTraceCmd example_env example_store
                              \<lparr>trace = example_call1, runId = ''a'', selected = False\<rparr>) ''a'' of
              None \<Rightarrow> [] | Some ts \<Rightarrow> ts) \<and>
   \<lparr>trace = example_call1, runId = ''a'', selected = True\<rparr>
     \<in> set (getChildren (selectTraceCmd example_env example_store
                            \<lparr>trace = example_call1, runId = ''a'', selected = False\<rparr>)) \<and>
   activeRunId (selectTraceCmd example_env example_store
                  \<lparr>trace = example_call1, runId = ''a'', selected = False\<rparr>) = Some ''a'' \<and>
   selectedCallId (selectTraceCmd example_env example_store
                  \<lparr>trace = example_call1, runId = ''a'', selected = False\<rparr>) = Js ''c1'' \<and>
   focusedFn (selectTraceCmd example_env example_store
                  \<lparr>trace = example_call1, runId = ''a'', selected = False\<rparr>) = Some ''f''"
proof -
  let ?item = "\<lparr>trace = example_call1, runId = ''a'', selected = False\<rparr>"
  have run: "runTraces (selectTraceCmd example_env example_store ?item) ''a''
               = Some [example_call1, example_call2]"
    by (simp add: selectTraceCmd_def example_store_def example_env_def Let_def)
  have c1: "call_id example_call1 = Js ''c1''" "function_name example_call1 = ''f''"
    by (simp_all add: example_call1_def normaliseTrace_def empty_raw_def nullish_def truthy_def
          Let_def)
  note post = selectTraceCmd_postcondition[of example_env example_store ?item, unfolded Let_def]
  have r: "runId ?item \<noteq> []" by simp
  have m: "trace ?item \<in> set (case runTraces (selectTraceCmd example_env example_store ?item) ''a''
                                 of None \<Rightarrow> [] | Some ts \<Rightarrow> ts)"
    by (simp add: run)
  from post have "runId ?item \<noteq> [] \<and>
      trace ?item \<in> set (case runTraces (selectTraceCmd example_env example_store ?item)
                                    (runId ?item) of None \<Rightarrow> [] | Some ts \<Rightarrow> ts) \<longrightarrow>
      \<lparr>trace = trace ?item, runId = runId ?item, selected = True\<rparr>
        \<in> set (getChildren (selectTraceCmd example_env example_store ?item))"
    by (elim conjE)
  with r m have g: "\<lparr>trace = example_call1, runId = ''a'', selected = True\<rparr>
        \<in> set (getChildren (selectTraceCmd example_env example_store ?item))"
    by simp
  from post have f: "activeRunId (selectTraceCmd example_env example_store ?item) = Some ''a''"
      "selectedCallId (selectTraceCmd example_env example_store ?item) = Js ''c1''"
      "focusedFn (selectTraceCmd example_env example_store ?item) = Some ''f''"
    by (simp_all add: c1)
  from r m g f show ?thesis by (intro conjI)
qed

section \<open>Deleting the file of the active run\<close>

lemma sorted_last_Max:
  fixes xs :: "'a::linorder list"
  shows "sorted xs \<Longrightarrow> xs \<noteq> [] \<Longrightarrow> last xs = Max (set xs)"
proof (induction xs)
  case Nil
  then show ?case by simp
next
  case (Cons x xs)
  show ?case
  proof (cases "xs = []")
    case True
    then show ?thesis by simp
  next
    case False
    with Cons have l: "last xs = Max (set xs)" by simp
    from False have "last xs \<in> set xs" by simp
    with Cons.prems have "x \<le> last xs" by auto
    with False l show ?thesis by (simp add: max_def)
  qed
qed

lemma sort_Nil_iff: "sort xs = [] \<longleftrightarrow> xs = []"
  by (metis length_0_conv length_sort)

lemma hd_rev_sort_Max:
  fixes xs :: "'a::linorder list"
  assumes "xs \<noteq> []"
  shows "rev (sort xs) ! 0 = Max (set xs)"
proof -
  from assms have ne: "sort xs \<noteq> []" by (simp add: sort_Nil_iff)
  then have "rev (sort xs) ! 0 = last (sort xs)"
    by (simp add: hd_conv_nth[symmetric] hd_rev)
  also have "\<dots> = Max (set (sort xs))"
    using ne by (intro sorted_last_Max) simp_all
  finally show ?thesis by simp
qed

lemma refresh_cleared:
  "activeRunId store = None \<Longrightarrow> activeRunId (refresh env store) = latest_run env"
  by (simp add: refresh_def latest_run_def Let_def hd_rev_sort_Max sort_Nil_iff
        split: option.splits)

lemma refresh_other_fields:
  "selectedCallId (refresh env store) = selectedCallId store"
  "runTraces (refresh env store) = runTraces store"
  by (simp_all add: refresh_def Let_def split: option.splits)

text \<open>
  Claim C6, as stated: when the file of the active run disappears, then after the
  handler, its re-render of the tree included, \<^verbatim>\<open>activeRunId\<close> is null. It fails when
  another run file remains: the handler ends with \<^verbatim>\<open>provider.refresh()\<close>, which makes
  the most recent remaining run the active one.
\<close>

theorem onDidDelete_reselects_counterexample:
  "activeRunId example_store = Some (path_basename example_env ''/w/runs/a.jsonl'' ''.jsonl'') \<and>
   activeRunId (fst (onDidDelete example_env (example_store, example_ui) ''/w/runs/a.jsonl''))
     = Some ''c''"
  by (simp add: onDidDelete_def refresh_def example_env_def example_store_def endsWith_def
        strip_jsonl_def Let_def)

text \<open>
  Claim C6, amended: when the file of the active run disappears, then after the handler
  \<^verbatim>\<open>selectedCallId\<close> is null, the run's cache entry is dropped, the decorations of
  every visible editor are empty, and \<^verbatim>\<open>activeRunId\<close> is the most recent run left in
  the run directory, or null when none is left or the directory cannot be listed.
\<close>

theorem onDidDelete_active_run:
  "(let deleted = path_basename env fsPath ''.jsonl'';
        state' = onDidDelete env (store\<lparr>activeRunId := Some deleted\<rparr>, ui) fsPath
    in selectedCallId (fst state') = JsNull \<and>
       runTraces (fst state') deleted = None \<and>
       visibleTextEditors (snd state') = visibleTextEditors ui \<and>
       map (decorations (snd state')) (map fst (visibleTextEditors ui)) =
         map (\<lambda>_. ([], [])) (visibleTextEditors ui) \<and>
       activeRunId (fst state') = latest_run env)"
proof -
  let ?d = "path_basename env fsPath ''.jsonl''"
  let ?st = "onDidDelete env (store\<lparr>activeRunId := Some ?d\<rparr>, ui) fsPath"
  have st: "?st = (refresh env (store\<lparr>runTraces := (runTraces store)(?d := None),
                                       activeRunId := None, selectedCallId := JsNull\<rparr>),
                   clearAll ui)"
    by (simp add: onDidDelete_def Let_def)
  have a: "activeRunId (fst ?st) = latest_run env"
    unfolding st fst_conv by (rule refresh_cleared) simp
  have b: "selectedCallId (fst ?st) = JsNull" "runTraces (fst ?st) ?d = None"
    unfolding st fst_conv by (simp_all add: refresh_other_fields)
  have c: "visibleTextEditors (snd ?st) = visibleTextEditors ui"
    unfolding st snd_conv by (simp add: clearAll_def)
  have d: "map (decorations (snd ?st)) (map fst (visibleTextEditors ui)) =
         map (\<lambda>_. ([], [])) (visibleTextEditors ui)"
    unfolding st snd_conv by (simp add: clearAll_def)
  show ?thesis unfolding Let_def by (intro conjI a b c d)
qed

text \<open>
  The handler in the example workspace: the run \<^verbatim>\<open>a\<close> is active and its file goes;
  both visible editors lose their decorations, and the run \<^verbatim>\<open>c\<close> becomes active.
\<close>

theorem onDidDelete_active_run_witness:
  "path_basename example_env ''/w/runs/a.jsonl'' ''.jsonl'' = ''a'' \<and>
   latest_run example_env = Some ''c'' \<and>
   selectedCallId (fst (onDidDelete example_env
        (example_store\<lparr>activeRunId := Some ''a''\<rparr>, example_ui) ''/w/runs/a.jsonl'')) = JsNull \<and>
   runTraces (fst (onDidDelete example_env
        (example_store\<lparr>activeRunId := Some ''a''\<rparr>, example_ui) ''/w/runs/a.jsonl'')) ''a'' = None \<and>
   decorations (snd (onDidDelete example_env
        (example_store\<lparr>activeRunId := Some ''a''\<rparr>, example_ui) ''/w/runs/a.jsonl'')) 0 = ([], []) \<and>
   decorations (snd (onDidDelete example_env
        (example_store\<lparr>activeRunId := Some ''a''\<rparr>, example_ui) ''/w/runs/a.jsonl'')) 1 = ([], []) \<and>
   activeRunId (fst (onDidDelete example_env
        (example_store\<lparr>activeRunId := Some ''a''\<rparr>, example_ui) ''/w/runs/a.jsonl'')) = Some ''c''"
proof -
  have b: "path_basename example_env ''/w/runs/a.jsonl'' ''.jsonl'' = ''a''"
    by (simp add: example_env_def endsWith_def Let_def)
  have l: "latest_run example_env = Some ''c''"
    by (simp add: latest_run_def example_env_def endsWith_def strip_jsonl_def Let_def)
  have v: "visibleTextEditors example_ui = [(0, ''/w/app.py''), (1, ''/w/lib.py'')]"
    by (simp add: example_ui_def)
  from onDidDelete_active_run[of example_env "''/w/runs/a.jsonl''" example_store example_ui]
  show ?thesis
    by (simp add: Let_def b l v)
qed

section \<open>A record with one line bound\<close>

text \<open>
  Claim C9: a record with exactly one of its line bounds null must not make an
  operation fail. The line correlation of the hover and of the selection handler tests
  both bounds, so it never matches such a record. \<^verbatim>\<open>applyToEditor\<close> tests the start
  only: for a record that starts at line 10 and has no end it asks the editor for a
  range from line 8 to line \<^verbatim>\<open>null - 1\<close>, which is -1, whatever the constructor is;
  the editor's constructor rejects a negative line, so the operation fails before any
  decoration is set.
\<close>

theorem applyToEditor_partial_record:
  "source_line_start example_partial = Some 10 \<and>
   source_line_end example_partial = None \<and>
   \<not> matches_line filePath cursorLine (t\<lparr>source_line_start := None\<rparr>) \<and>
   \<not> matches_line filePath cursorLine (t\<lparr>source_line_end := None\<rparr>) \<and>
   hover_matches example_partial_store ''/w/app.py'' cursorLine = [] \<and>
   cursor_hit example_partial_store ''/w/app.py'' cursorLine = None \<and>
   applyToEditor mkRange example_partial_store ''/w/app.py'' =
     (case mkRange 8 0 8 0 of
        Inl e \<Rightarrow> Inl e
      | Inr gutter \<Rightarrow>
          (case mkRange 8 0 (- 1) 0 of
             Inl e \<Rightarrow> Inl e
           | Inr highlight \<Rightarrow> Inr ([highlight], [gutter]))) \<and>
   applyToEditor vscode_Range example_partial_store ''/w/app.py'' = Inl IllegalArgument"
proof -
  have p: "source_line_start example_partial = Some 10" "source_line_end example_partial = None"
          "source_file example_partial = Some ''/w/app.py''" "function_name example_partial = ''g''"
          "call_id example_partial = Js ''c3''"
    by (simp_all add: example_partial_def normaliseTrace_def empty_raw_def nullish_def truthy_def
          Let_def)
  have tr: "activeTraces example_partial_store = [example_partial]"
    by (simp add: activeTraces_def example_partial_store_def)
  have h: "hover_matches example_partial_store ''/w/app.py'' cursorLine = []"
    by (simp add: hover_matches_def tr matches_line_def p)
  have c: "cursor_hit example_partial_store ''/w/app.py'' cursorLine = None"
    by (simp add: cursor_hit_def tr matches_line_def p)
  have ps: "truthy (activeRunId example_partial_store)" "highlightActive example_partial_store"
           "focusedFn example_partial_store = None"
           "selectedCallId example_partial_store = JsNull" "\<not> truthy None"
    by (simp_all add: example_partial_store_def truthy_def)
  have a: "applyToEditor mkRange example_partial_store ''/w/app.py'' =
     (case mkRange 8 0 8 0 of
        Inl e \<Rightarrow> Inl e
      | Inr gutter \<Rightarrow>
          (case mkRange 8 0 (- 1) 0 of
             Inl e \<Rightarrow> Inl e
           | Inr highlight \<Rightarrow> Inr ([highlight], [gutter])))" for mkRange
    by (simp add: applyToEditor_def tr p ps to_number_def Let_def nullish_def
          split: sum.splits)
  have v: "applyToEditor vscode_Range example_partial_store ''/w/app.py'' = Inl IllegalArgument"
    unfolding a by (simp add: vscode_Range_def)
  have n: "\<not> matches_line filePath cursorLine (t\<lparr>source_line_start := None\<rparr>)"
          "\<not> matches_line filePath cursorLine (t\<lparr>source_line_end := None\<rparr>)"
    by (simp_all add: matches_line_def)
  from p(1,2) n h c a v show ?thesis by (simp only: simp_thms)
qed

text \<open>The same at the line 8, with the editor's constructor.\<close>

theorem applyToEditor_partial_record_witness:
  "hover_matches example_partial_store ''/w/app.py'' 8 = [] \<and>
   cursor_hit example_partial_store ''/w/app.py'' 8 = None \<and>
   vscode_Range 8 0 8 0 = Inr \<lparr>start_line = 8, start_character = 0, end_line = 8, end_character = 0\<rparr> \<and>
   vscode_Range 8 0 (- 1) 0 = Inl IllegalArgument \<and>
   applyToEditor vscode_Range example_partial_store ''/w/app.py'' = Inl IllegalArgument"
  using applyToEditor_partial_record[where cursorLine = 8 and mkRange = vscode_Range]
  by (simp add: vscode_Range_def)

end
